theory Spec2Isabelle
  imports Main "HOL-Library.Char_ord" "HOL-Library.List_Lexorder" "HOL-Library.Multiset"
begin

section \<open>Errors\<close>

text \<open>
  Every \<^verbatim>\<open>raise\<close> of the modelled sources is a value of this type. The
  constructors keep the names of the Python exception classes; the ones that carry a
  string carry the message of the \<^verbatim>\<open>raise\<close> statement.
\<close>

datatype error =
    IdentifierMissingException
  | ValueError string
  | IndexError
  | KeyError string
  | TypeError
  | AttributeError string
  | WormbaseRetrievalException string
  | PubmedRetrievalException string
  | Exception string

section \<open>Documents (\<^verbatim>\<open>owmeta/document.py\<close>)\<close>

subsection \<open>Properties\<close>

text \<open>
  A \<^verbatim>\<open>DatatypeProperty\<close> is represented by the list of its defined values, in
  the order in which they were stated (\<^verbatim>\<open>prop.defined_values\<close>).
  \<^verbatim>\<open>prop.has_defined_value()\<close> holds when that list is not empty.
  \<^verbatim>\<open>prop.set(v)\<close> replaces the value of a single-valued property and adds a
  value to a property declared with \<^verbatim>\<open>multiple=True\<close>; \<^verbatim>\<open>prop.clear()\<close>
  removes every value.
\<close>

type_synonym property = "string list"

definition has_defined_value :: "property \<Rightarrow> bool" where
  "has_defined_value p = (p \<noteq> [])"

definition prop_set :: "bool \<Rightarrow> property \<Rightarrow> string \<Rightarrow> property" where
  "prop_set multiple p v = (if multiple then p @ [v] else [v])"

definition prop_clear :: "property \<Rightarrow> property" where
  "prop_clear p = []"

text \<open>
  The class \<^verbatim>\<open>Document\<close>: one field for each declared property. \<^verbatim>\<open>author\<close> and
  \<^verbatim>\<open>uri\<close> are declared with \<^verbatim>\<open>multiple=True\<close>; \<^verbatim>\<open>wormbaseid\<close> and
  \<^verbatim>\<open>date\<close> are aliases of \<^verbatim>\<open>wbid\<close> and \<^verbatim>\<open>year\<close>.
\<close>

record document =
  author :: property
  doi :: property
  uri :: property
  wbid :: property
  pmid :: property
  year :: property
  title :: property

definition empty_document :: document where
  "empty_document =
     \<lparr>author = [], doi = [], uri = [], wbid = [], pmid = [], year = [], title = []\<rparr>"

definition getattr :: "document \<Rightarrow> string \<Rightarrow> error + property" where
  "getattr d x =
     (if x = ''author'' then Inr (author d)
      else if x = ''doi'' then Inr (doi d)
      else if x = ''uri'' then Inr (uri d)
      else if x = ''wbid'' then Inr (wbid d)
      else if x = ''wormbaseid'' then Inr (wbid d)
      else if x = ''pmid'' then Inr (pmid d)
      else if x = ''year'' then Inr (year d)
      else if x = ''date'' then Inr (year d)
      else if x = ''title'' then Inr (title d)
      else Inl (AttributeError x))"

subsection \<open>Identity: \<^verbatim>\<open>defined_augment\<close> and \<^verbatim>\<open>identifier_augment\<close>\<close>

text \<open>\<^verbatim>\<open>self.id_precedence = ('doi', 'pmid', 'wbid', 'uri')\<close>, set by the constructor.\<close>

definition id_precedence :: "string list" where
  "id_precedence = [''doi'', ''pmid'', ''wbid'', ''uri'']"

text \<open>
  \<^verbatim>\<open>
  def defined_augment(self):
      for x in self.id_precedence:
          if getattr(self, x).has_defined_value():
              return True
      return False
  \<close>
\<close>

fun defined_loop :: "document \<Rightarrow> string list \<Rightarrow> error + bool" where
  "defined_loop d [] = Inr False"
| "defined_loop d (x # xs) =
     (case getattr d x of
        Inl e \<Rightarrow> Inl e
      | Inr p \<Rightarrow> if has_defined_value p then Inr True else defined_loop d xs)"

definition defined_augment :: "document \<Rightarrow> error + bool" where
  "defined_augment d = defined_loop d id_precedence"

text \<open>
  \<^verbatim>\<open>
  def identifier_augment(self):
      for idKind in self.id_precedence:
          idprop = getattr(self, idKind)
          if idprop.has_defined_value():
              s = str(idKind) + ":" + idprop.defined_values[0].identifier.n3()
              return self.make_identifier(s)
      raise IdentifierMissingException(self)
  \<close>
  The rendering \<^verbatim>\<open>n3\<close> of a value (rdflib) and \<^verbatim>\<open>make_identifier\<close>
  (owmeta\_core) are parameters.
\<close>

fun identifier_loop ::
  "(string \<Rightarrow> string) \<Rightarrow> (string \<Rightarrow> 'i) \<Rightarrow> document \<Rightarrow> string list \<Rightarrow> error + 'i" where
  "identifier_loop n3 make_identifier d [] = Inl IdentifierMissingException"
| "identifier_loop n3 make_identifier d (idKind # rest) =
     (case getattr d idKind of
        Inl e \<Rightarrow> Inl e
      | Inr idprop \<Rightarrow>
          if has_defined_value idprop
          then (case idprop of
                  [] \<Rightarrow> Inl IndexError
                | v # _ \<Rightarrow> Inr (make_identifier (idKind @ '':'' @ n3 v)))
          else identifier_loop n3 make_identifier d rest)"

definition identifier_augment ::
  "(string \<Rightarrow> string) \<Rightarrow> (string \<Rightarrow> 'i) \<Rightarrow> document \<Rightarrow> error + 'i" where
  "identifier_augment n3 make_identifier d = identifier_loop n3 make_identifier d id_precedence"

subsection \<open>String operations of Python used by the sources\<close>

text \<open>
  \<^verbatim>\<open>s.split(sep)\<close> for a non-empty separator: the pieces between the
  non-overlapping occurrences of \<^verbatim>\<open>sep\<close>, scanned from the left. The
  sources only pass literal, non-empty separators.
\<close>

function split_from :: "string \<Rightarrow> string \<Rightarrow> string \<Rightarrow> string list" where
  "split_from sep acc s =
     (if sep \<noteq> [] \<and> s \<noteq> [] \<and> take (length sep) s = sep
      then rev acc # split_from sep [] (drop (length sep) s)
      else (case s of
              [] \<Rightarrow> [rev acc]
            | c # cs \<Rightarrow> split_from sep (c # acc) cs))"
  by pat_completeness auto
termination
  by (relation "measure (\<lambda>(sep, acc, s). length s)") auto

declare split_from.simps [simp del]

definition py_split :: "string \<Rightarrow> string \<Rightarrow> string list" where
  "py_split sep s = split_from sep [] s"

text \<open>\<^verbatim>\<open>s.split(sep, 1)\<close>: split at the first occurrence only.\<close>

fun split1_from :: "string \<Rightarrow> string \<Rightarrow> string \<Rightarrow> string list" where
  "split1_from sep acc [] = [rev acc]"
| "split1_from sep acc (c # cs) =
     (if sep \<noteq> [] \<and> take (length sep) (c # cs) = sep
      then [rev acc, drop (length sep) (c # cs)]
      else split1_from sep (c # acc) cs)"

definition py_split1 :: "string \<Rightarrow> string \<Rightarrow> string list" where
  "py_split1 sep s = split1_from sep [] s"

text \<open>\<^verbatim>\<open>sub in s\<close> on strings.\<close>

fun py_in :: "string \<Rightarrow> string \<Rightarrow> bool" where
  "py_in sub [] = (sub = [])"
| "py_in sub (c # cs) = (take (length sub) (c # cs) = sub \<or> py_in sub cs)"

text \<open>\<^verbatim>\<open>xs[i]\<close> for \<^verbatim>\<open>i \<ge> 0\<close>: an index out of range raises IndexError.\<close>

definition py_index :: "'a list \<Rightarrow> nat \<Rightarrow> error + 'a" where
  "py_index xs i = (if i < length xs then Inr (xs ! i) else Inl IndexError)"

text \<open>\<^verbatim>\<open>s.upper()\<close>, on ASCII letters.\<close>

definition upper_char :: "char \<Rightarrow> char" where
  "upper_char c =
     (case map_of (zip ''abcdefghijklmnopqrstuvwxyz'' ''ABCDEFGHIJKLMNOPQRSTUVWXYZ'') c of
        None \<Rightarrow> c
      | Some u \<Rightarrow> u)"

definition py_upper :: "string \<Rightarrow> string" where
  "py_upper s = map upper_char s"

text \<open>\<^verbatim>\<open>s.replace(a, b)\<close> for single characters, and \<^verbatim>\<open>s.strip()\<close>.\<close>

definition py_replace_char :: "char \<Rightarrow> char \<Rightarrow> string \<Rightarrow> string" where
  "py_replace_char a b s = map (\<lambda>c. if c = a then b else c) s"

definition is_space :: "char \<Rightarrow> bool" where
  "is_space c = (c \<in> set [CHR '' '', CHR 0x09, CHR 0x0A, CHR 0x0B, CHR 0x0C, CHR 0x0D])"

definition py_strip :: "string \<Rightarrow> string" where
  "py_strip s = rev (dropWhile is_space (rev (dropWhile is_space s)))"

subsection \<open>URL helpers\<close>

text \<open>
  \<^verbatim>\<open>urlparse\<close> (standard library) is a parameter of the functions below; only
  the \<^verbatim>\<open>netloc\<close> and \<^verbatim>\<open>path\<close> components of its result are read.
\<close>

record parsed_url =
  netloc :: string
  path :: string

text \<open>
  \<^verbatim>\<open>
  def _wormbase_uri_to_wbid(uri):
      return str(urlparse(uri).path.split("/")[2])

  def _pubmed_uri_to_pmid(uri):
      return str(urlparse(uri).path.split("/")[2])

  def _doi_uri_to_doi(uri):
      parsed = urlparse(uri)
      if 'doi.org' in parsed.netloc:
          doi = parsed.path.split("/", 1)[1]
      else:
          doi = None
      return doi
  \<close>
  The result is an option because the callers test it against \<^verbatim>\<open>None\<close>.
\<close>

definition wormbase_uri_to_wbid :: "(string \<Rightarrow> parsed_url) \<Rightarrow> string \<Rightarrow> error + string option" where
  "wormbase_uri_to_wbid urlparse u =
     (case py_index (py_split ''/'' (path (urlparse u))) 2 of
        Inl e \<Rightarrow> Inl e
      | Inr s \<Rightarrow> Inr (Some s))"

definition pubmed_uri_to_pmid :: "(string \<Rightarrow> parsed_url) \<Rightarrow> string \<Rightarrow> error + string option" where
  "pubmed_uri_to_pmid urlparse u =
     (case py_index (py_split ''/'' (path (urlparse u))) 2 of
        Inl e \<Rightarrow> Inl e
      | Inr s \<Rightarrow> Inr (Some s))"

definition doi_uri_to_doi :: "(string \<Rightarrow> parsed_url) \<Rightarrow> string \<Rightarrow> error + string option" where
  "doi_uri_to_doi urlparse u =
     (let parsed = urlparse u in
      if py_in ''doi.org'' (netloc parsed)
      then (case py_index (py_split1 ''/'' (path parsed)) 1 of
              Inl e \<Rightarrow> Inl e
            | Inr s \<Rightarrow> Inr (Some s))
      else Inr None)"


subsection \<open>Construction\<close>

text \<open>
  Modelled from the spec: the module \<^verbatim>\<open>owmeta/bibtex.py\<close> (\<^verbatim>\<open>BIB\<close>) is not
  among the sources. A parsed entry of a bibliographic-text blob carries the fields the
  spec names (author, title, year, doi), and \<^verbatim>\<open>update_document_with_bibtex\<close>
  populates the author, title, year and doi properties of the document from the entry:
  every author of the entry is added, and each of the other three is set when the entry
  has it. The parser \<^verbatim>\<open>BIB.loads\<close> is a parameter that returns the entries of the
  blob (\<^verbatim>\<open>bib_db.entries\<close>).
\<close>

record bib_entry =
  entry_author :: "string list"
  entry_title :: "string option"
  entry_year :: "string option"
  entry_doi :: "string option"

definition set_opt :: "property \<Rightarrow> string option \<Rightarrow> property" where
  "set_opt p v = (case v of None \<Rightarrow> p | Some x \<Rightarrow> prop_set False p x)"

definition update_document_with_bibtex :: "document \<Rightarrow> bib_entry \<Rightarrow> document" where
  "update_document_with_bibtex d e =
     d\<lparr>author := foldl (prop_set True) (author d) (entry_author e),
       title := set_opt (title d) (entry_title e),
       year := set_opt (year d) (entry_year e),
       doi := set_opt (doi d) (entry_doi e)\<rparr>"

text \<open>
  \<^verbatim>\<open>
  def update_with_bibtex(self, bibtex):
      bib_db = BIB.loads(bibtex)
      if len(bib_db.entries) > 1:
          raise ValueError('The given BibTex string has %d entries.'
                           ' Cannot determine which entry to use for the document' % len(bib_db))
      BIB.update_document_with_bibtex(self, bib_db.entries[0])
  \<close>
  The error value carries the message before the count is formatted into it.
\<close>

definition bibtex_entries_message :: string where
  "bibtex_entries_message =
     ''The given BibTex string has %d entries. Cannot determine which entry to use for the document''"

definition update_with_bibtex ::
  "(string \<Rightarrow> bib_entry list) \<Rightarrow> document \<Rightarrow> string \<Rightarrow> error + document" where
  "update_with_bibtex loads d bibtex =
     (let entries = loads bibtex in
      if length entries > 1 then Inl (ValueError bibtex_entries_message)
      else (case py_index entries 0 of
              Inl e \<Rightarrow> Inl e
            | Inr entry \<Rightarrow> Inr (update_document_with_bibtex d entry)))"

text \<open>
  The constructor. \<^verbatim>\<open>d0\<close> is the document after
  \<^verbatim>\<open>super(Document, self).__init__(**kwargs)\<close>, which sets the properties given as
  keyword arguments; the four named parameters are options (\<^verbatim>\<open>None\<close> by default).
  \<^verbatim>\<open>
  if bibtex is not None:
      self.update_with_bibtex(bibtex)

  if pubmed is not None and not self.pmid.has_defined_value():
      if pubmed[:4] == 'http':
          _tmp = _pubmed_uri_to_pmid(pubmed)
          if _tmp is None:
              raise ValueError("Couldn't convert Pubmed URL to a PubMed ID")
          pmid = _tmp
      else:
          pmid = pubmed
      self.pmid.set(pmid)

  if wormbase is not None and not self.wbid.has_defined_value():
      if wormbase[:4] == 'http':
          _tmp = _wormbase_uri_to_wbid(wormbase)
          if _tmp is None:
              raise ValueError("Couldn't convert Wormbase URL to a Wormbase ID")
          wbid = _tmp
      else:
          wbid = wormbase
      self.wbid.set(wbid)

  if doi is not None:
      if doi[:4] == 'http':
          _tmp = _doi_uri_to_doi(doi)
          if _tmp is not None:
              doi = _tmp
      self.doi.set(doi)
  \<close>
\<close>

definition init_bibtex ::
  "(string \<Rightarrow> bib_entry list) \<Rightarrow> string option \<Rightarrow> document \<Rightarrow> error + document" where
  "init_bibtex loads bibtex d =
     (case bibtex of
        None \<Rightarrow> Inr d
      | Some b \<Rightarrow> update_with_bibtex loads d b)"

definition init_pubmed ::
  "(string \<Rightarrow> parsed_url) \<Rightarrow> string option \<Rightarrow> document \<Rightarrow> error + document" where
  "init_pubmed urlparse pubmed d =
     (case pubmed of
        None \<Rightarrow> Inr d
      | Some p \<Rightarrow>
          if \<not> has_defined_value (pmid d)
          then (if take 4 p = ''http''
                then (case pubmed_uri_to_pmid urlparse p of
                        Inl e \<Rightarrow> Inl e
                      | Inr None \<Rightarrow> Inl (ValueError ''Couldn't convert Pubmed URL to a PubMed ID'')
                      | Inr (Some tmp) \<Rightarrow> Inr (d\<lparr>pmid := prop_set False (pmid d) tmp\<rparr>))
                else Inr (d\<lparr>pmid := prop_set False (pmid d) p\<rparr>))
          else Inr d)"

definition init_wormbase ::
  "(string \<Rightarrow> parsed_url) \<Rightarrow> string option \<Rightarrow> document \<Rightarrow> error + document" where
  "init_wormbase urlparse wormbase d =
     (case wormbase of
        None \<Rightarrow> Inr d
      | Some w \<Rightarrow>
          if \<not> has_defined_value (wbid d)
          then (if take 4 w = ''http''
                then (case wormbase_uri_to_wbid urlparse w of
                        Inl e \<Rightarrow> Inl e
                      | Inr None \<Rightarrow> Inl (ValueError ''Couldn't convert Wormbase URL to a Wormbase ID'')
                      | Inr (Some tmp) \<Rightarrow> Inr (d\<lparr>wbid := prop_set False (wbid d) tmp\<rparr>))
                else Inr (d\<lparr>wbid := prop_set False (wbid d) w\<rparr>))
          else Inr d)"

definition init_doi ::
  "(string \<Rightarrow> parsed_url) \<Rightarrow> string option \<Rightarrow> document \<Rightarrow> error + document" where
  "init_doi urlparse doi_param d =
     (case doi_param of
        None \<Rightarrow> Inr d
      | Some x \<Rightarrow>
          if take 4 x = ''http''
          then (case doi_uri_to_doi urlparse x of
                  Inl e \<Rightarrow> Inl e
                | Inr None \<Rightarrow> Inr (d\<lparr>doi := prop_set False (doi d) x\<rparr>)
                | Inr (Some tmp) \<Rightarrow> Inr (d\<lparr>doi := prop_set False (doi d) tmp\<rparr>))
          else Inr (d\<lparr>doi := prop_set False (doi d) x\<rparr>))"

definition Document_init ::
  "(string \<Rightarrow> bib_entry list) \<Rightarrow> (string \<Rightarrow> parsed_url) \<Rightarrow> document \<Rightarrow>
   string option \<Rightarrow> string option \<Rightarrow> string option \<Rightarrow> string option \<Rightarrow> error + document" where
  "Document_init loads urlparse d0 bibtex doi_param pubmed wormbase =
     (case init_bibtex loads bibtex d0 of
        Inl e \<Rightarrow> Inl e
      | Inr d1 \<Rightarrow>
          (case init_pubmed urlparse pubmed d1 of
             Inl e \<Rightarrow> Inl e
           | Inr d2 \<Rightarrow>
               (case init_wormbase urlparse wormbase d2 of
                  Inl e \<Rightarrow> Inl e
                | Inr d3 \<Rightarrow> init_doi urlparse doi_param d3)))"


subsection \<open>Enrichment from remote services\<close>

text \<open>
  The remote services are parameters: a function from the requested URL to the decoded
  response. Every enrichment returns the list of the URLs it requested, in order, next to
  its outcome, so that a call which performs no network request returns the empty list.

  The document-overview fetch of WormBase (\<^verbatim>\<open>_json_request\<close>, which returns
  \<^verbatim>\<open>{}\<close> on every failure) yields \<^verbatim>\<open>None\<close> when the response has no
  \<^verbatim>\<open>'fields'\<close>, and otherwise the optional data of \<^verbatim>\<open>authors\<close> (the labels),
  \<^verbatim>\<open>pmid\<close>, \<^verbatim>\<open>year\<close>, \<^verbatim>\<open>title\<close> and \<^verbatim>\<open>doi\<close>.
\<close>

record wb_fields =
  wb_authors :: "string list option"
  wb_pmid :: "string option"
  wb_year :: "string option"
  wb_title :: "string option"
  wb_doi :: "string option"

text \<open>
  \<^verbatim>\<open>
  if replace_existing and attr.has_defined_value:
      attr.clear()
  attr.set(f[fname]['data'])
  \<close>
  \<^verbatim>\<open>attr.has_defined_value\<close> is the bound method, not a call of it, so the test is
  true whenever \<^verbatim>\<open>replace_existing\<close> is.
\<close>

definition wb_store :: "bool \<Rightarrow> bool \<Rightarrow> property \<Rightarrow> string \<Rightarrow> property" where
  "wb_store multiple replace_existing p v =
     prop_set multiple (if replace_existing then prop_clear p else p) v"

definition wb_store_opt :: "bool \<Rightarrow> property \<Rightarrow> string option \<Rightarrow> property" where
  "wb_store_opt replace_existing p v =
     (case v of None \<Rightarrow> p | Some x \<Rightarrow> wb_store False replace_existing p x)"

definition wb_apply :: "bool \<Rightarrow> wb_fields \<Rightarrow> document \<Rightarrow> document" where
  "wb_apply replace_existing f d =
     (let d1 = (case wb_authors f of
                  None \<Rightarrow> d
                | Some dat \<Rightarrow>
                    d\<lparr>author := foldl (prop_set True)
                                   (if replace_existing then prop_clear (author d) else author d)
                                   dat\<rparr>)
      in d1\<lparr>pmid := wb_store_opt replace_existing (pmid d1) (wb_pmid f),
            year := wb_store_opt replace_existing (year d1) (wb_year f),
            title := wb_store_opt replace_existing (title d1) (wb_title f),
            doi := wb_store_opt replace_existing (doi d1) (wb_doi f)\<rparr>)"

text \<open>
  \<^verbatim>\<open>
  def update_from_wormbase(self, replace_existing=False):
      wbid = self.wbid.defined_values
      if len(wbid) == 1:
          wbid = wbid[0].identifier.toPython()
          try:
              root = self.conf.get('wormbase_api_root_url', 'http://rest.wormbase.org')
              url = root + '/rest/widget/paper/' + str(wbid) + '/overview?content-type=application%2Fjson'
              j = _json_request(url)
              if 'fields' in j:
                  ...
          except Exception:
              logger.warning("Couldn't retrieve Wormbase data", exc_info=True)
      elif len(wbid) == 0:
          raise WormbaseRetrievalException("There is no Wormbase ID attached to this Document."
                                           " So no data can be retrieved")
      else:
          raise WormbaseRetrievalException("There is more than one Wormbase ID attached to this Document."
                                           " Please try with just one Wormbase ID")
  \<close>
\<close>

definition update_from_wormbase ::
  "string option \<Rightarrow> (string \<Rightarrow> wb_fields option) \<Rightarrow> bool \<Rightarrow> document \<Rightarrow>
   string list \<times> (error + document)" where
  "update_from_wormbase conf_root json_request replace_existing d =
     (let ids = wbid d in
      if length ids = 1 then
        (let root = (case conf_root of None \<Rightarrow> ''http://rest.wormbase.org'' | Some r \<Rightarrow> r);
             url = root @ ''/rest/widget/paper/'' @ hd ids @ ''/overview?content-type=application%2Fjson''
         in ([url],
             (case json_request url of
                None \<Rightarrow> Inr d
              | Some f \<Rightarrow> Inr (wb_apply replace_existing f d))))
      else if length ids = 0 then
        ([], Inl (WormbaseRetrievalException
           ''There is no Wormbase ID attached to this Document. So no data can be retrieved''))
      else
        ([], Inl (WormbaseRetrievalException
           ''There is more than one Wormbase ID attached to this Document. Please try with just one Wormbase ID'')))"

text \<open>
  The summary fetch of PubMed: \<^verbatim>\<open>pmRequest\<close> either raises (the result is
  \<^verbatim>\<open>None\<close>) or returns a tree, of which the method reads the texts found by its four
  \<^verbatim>\<open>findall\<close> queries.
  \<^verbatim>\<open>
  def update_from_pubmed(self):
      def pmRequest(pmid):
          url = 'https://eutils.ncbi.nlm.nih.gov/entrez/eutils/esummary.fcgi?db=pubmed&id=' + str(pmid)
          key = self.get('pubmed.api_key', None)
          if key:
              url += '&api_key=' + key
          ...
      pmid = self.pmid.defined_values
      if len(pmid) == 1:
          pmid = pmid[0].identifier.toPython()
          try:
              tree = pmRequest(pmid)
          except Exception:
              logger.warning("Couldn't retrieve Pubmed info", exc_info=True)
              return
          for x in tree.findall('./DocSum/Item[@Name="AuthorList"]/Item'):
              self.author(x.text)
          for x in tree.findall('./DocSum/Item[@Name="Title"]'):
              self.title(x.text)
          for x in tree.findall('./DocSum/Item[@Name="DOI"]'):
              self.doi(x.text)
          for x in tree.findall('./DocSum/Item[@Name="PubDate"]'):
              self.year(x.text)
      elif len(pmid) == 0:
          raise PubmedRetrievalException('No Pubmed ID is attached to this document. Cannot retrieve Pubmed data')
      else:
          raise PubmedRetrievalException('More than one Pubmed ID is attached to this document.'
                                         ' Please try with just one Pubmed ID')
  \<close>
\<close>

record pm_summary =
  pm_authors :: "string list"
  pm_titles :: "string list"
  pm_dois :: "string list"
  pm_pubdates :: "string list"

definition pm_apply :: "pm_summary \<Rightarrow> document \<Rightarrow> document" where
  "pm_apply t d =
     d\<lparr>author := foldl (prop_set True) (author d) (pm_authors t),
       title := foldl (prop_set False) (title d) (pm_titles t),
       doi := foldl (prop_set False) (doi d) (pm_dois t),
       year := foldl (prop_set False) (year d) (pm_pubdates t)\<rparr>"

definition update_from_pubmed ::
  "string option \<Rightarrow> (string \<Rightarrow> pm_summary option) \<Rightarrow> document \<Rightarrow>
   string list \<times> (error + document)" where
  "update_from_pubmed api_key pm_request d =
     (let ids = pmid d in
      if length ids = 1 then
        (let url0 = ''https://eutils.ncbi.nlm.nih.gov/entrez/eutils/esummary.fcgi?db=pubmed&id='' @ hd ids;
             url = (case api_key of
                      None \<Rightarrow> url0
                    | Some k \<Rightarrow> if k \<noteq> [] then url0 @ ''&api_key='' @ k else url0)
         in ([url],
             (case pm_request url of
                None \<Rightarrow> Inr d
              | Some t \<Rightarrow> Inr (pm_apply t d))))
      else if length ids = 0 then
        ([], Inl (PubmedRetrievalException
           ''No Pubmed ID is attached to this document. Cannot retrieve Pubmed data''))
      else
        ([], Inl (PubmedRetrievalException
           ''More than one Pubmed ID is attached to this document. Please try with just one Pubmed ID'')))"

text \<open>
  The query-by-DOI fetch of CrossRef returns a list of items (empty for \<^verbatim>\<open>{}\<close>),
  each with the optional keys \<^verbatim>\<open>coins\<close>, \<^verbatim>\<open>title\<close> and \<^verbatim>\<open>year\<close>.
  \<^verbatim>\<open>self.doi()\<close>, the call of a single-valued property without argument, is its
  value, or \<^verbatim>\<open>None\<close> when it has none. \<^verbatim>\<open>urlencode\<close> is a parameter that
  renders the query for the value of \<^verbatim>\<open>q\<close>.
  \<^verbatim>\<open>
  def _crossref_doi_extract(self):
      def crRequest(doi):
          data = {'q': doi}
          data_encoded = urlencode(data)
          return _json_request('http://search.labs.crossref.org/dois?%s' % data_encoded)

      doi = self.doi()
      if doi[:4] == 'http':
          doi = _doi_uri_to_doi(doi)
      try:
          r = crRequest(doi)
      except Exception:
          logger.warning("Couldn't retrieve Crossref info", exc_info=True)
          return
      if len(r) > 0:
          extra_data = r[0]['coins'].split('&amp;')
          fields = (x.split("=") for x in extra_data)
          fields = [[y.replace('+', ' ').strip() for y in x] for x in fields]
          authors = [x[1] for x in fields if x[0] == 'rft.au']
          for a in authors:
              self.author(a)
          if len(r) > 0:
              r = r[0]
              if 'title' in r:
                  self.title(r['title'])
              if 'year' in r:
                  self.year(r['year'])
  \<close>
\<close>

record cr_item =
  cr_coins :: "string option"
  cr_title :: "string option"
  cr_year :: "string option"

definition prop_get :: "property \<Rightarrow> string option" where
  "prop_get p = (case p of [] \<Rightarrow> None | v # _ \<Rightarrow> Some v)"

definition coins_fields :: "string \<Rightarrow> string list list" where
  "coins_fields coins =
     map (\<lambda>x. map (\<lambda>y. py_strip (py_replace_char CHR ''+'' CHR '' '' y)) (py_split ''='' x))
       (py_split ''&amp;'' coins)"

fun coins_authors :: "string list list \<Rightarrow> error + string list" where
  "coins_authors [] = Inr []"
| "coins_authors (x # xs) =
     (if py_index x 0 = Inr ''rft.au''
      then (case py_index x 1 of
              Inl e \<Rightarrow> Inl e
            | Inr a \<Rightarrow> (case coins_authors xs of Inl e \<Rightarrow> Inl e | Inr as \<Rightarrow> Inr (a # as)))
      else coins_authors xs)"

definition cr_apply :: "cr_item \<Rightarrow> document \<Rightarrow> error + document" where
  "cr_apply r0 d =
     (case cr_coins r0 of
        None \<Rightarrow> Inl (KeyError ''coins'')
      | Some coins \<Rightarrow>
          (case coins_authors (coins_fields coins) of
             Inl e \<Rightarrow> Inl e
           | Inr authors \<Rightarrow>
               Inr (d\<lparr>author := foldl (prop_set True) (author d) authors,
                      title := set_opt (title d) (cr_title r0),
                      year := set_opt (year d) (cr_year r0)\<rparr>)))"

definition crossref_doi_extract ::
  "(string \<Rightarrow> parsed_url) \<Rightarrow> (string option \<Rightarrow> string) \<Rightarrow> (string \<Rightarrow> cr_item list) \<Rightarrow>
   document \<Rightarrow> string list \<times> (error + document)" where
  "crossref_doi_extract urlparse urlencode json_request d =
     (case prop_get (doi d) of
        None \<Rightarrow> ([], Inl TypeError)
      | Some x \<Rightarrow>
          (case (if take 4 x = ''http'' then doi_uri_to_doi urlparse x else Inr (Some x)) of
             Inl e \<Rightarrow> ([], Inl e)
           | Inr q \<Rightarrow>
               (let url = ''http://search.labs.crossref.org/dois?'' @ urlencode q;
                    r = json_request url
                in ([url],
                    (if length r > 0 then cr_apply (hd r) d else Inr d)))))"


section \<open>Translation results and contexts\<close>

text \<open>
  Modelled from the spec: the class \<^verbatim>\<open>DataWithEvidenceDataSource\<close>
  (\<^verbatim>\<open>owmeta/data_trans/data_with_evidence_ds.py\<close>) is not among the sources. A
  context is a named, identified container of statements that supports
  \<^verbatim>\<open>add_import(otherContext)\<close>, a non-owning reference to another context. A
  translation result has exactly two contexts, the data context and the evidence context,
  and a back-reference to the sources consumed to produce it, kept here by their
  identifiers.
\<close>

type_synonym ident = string

datatype 's ctx =
  Ctx (ctx_ident: ident) (statements: "'s list") (imported: "'s ctx list")

datatype 's dweds =
  DWEDS (ds_identifier: ident) (data_context: "'s ctx") (evidence_context: "'s ctx")
    (source_idents: "ident list")

definition add_import :: "'s ctx \<Rightarrow> 's ctx \<Rightarrow> 's ctx" where
  "add_import c other = Ctx (ctx_ident c) (statements c) (imported c @ [other])"

definition add_statements :: "'s ctx \<Rightarrow> 's list \<Rightarrow> 's ctx" where
  "add_statements c ss = Ctx (ctx_ident c) (statements c @ ss) (imported c)"


text \<open>
  Modelled from the spec: \<^verbatim>\<open>make_new_output\<close> constructs a new translation result
  tied to its input sources, with two contexts of its own that hold nothing yet. The
  identifiers are deterministic functions of the construction parameters; these functions
  are the fields of \<^verbatim>\<open>naming\<close>. \<^verbatim>\<open>data_context_for(document=doc)\<close> gives the
  data context an identifier derived from the justifying document.
\<close>

record naming =
  output_ident :: "ident list \<Rightarrow> ident"
  data_context_ident :: "ident \<Rightarrow> ident"
  evidence_context_ident :: "ident \<Rightarrow> ident"
  document_context_ident :: "ident \<Rightarrow> string \<Rightarrow> ident"

definition make_new_output :: "naming \<Rightarrow> ident list \<Rightarrow> 's dweds" where
  "make_new_output nm srcs =
     (let i = output_ident nm srcs
      in DWEDS i (Ctx (data_context_ident nm i) [] []) (Ctx (evidence_context_ident nm i) [] [])
           srcs)"

section \<open>Merging contexts (\<^verbatim>\<open>owmeta/data_trans/context_merge.py\<close>)\<close>

text \<open>
  \<^verbatim>\<open>
  def translate(self, *sources):
      if not sources:
          raise Exception("No sources were provided")

      sources = sorted(sources, key=lambda s: s.identifier)
      res = self.make_new_output(sources=sources)

      for src in sources:
          res.data_context.add_import(src.data_context)
          res.evidence_context.add_import(src.evidence_context)
      return res
  \<close>
  \<^verbatim>\<open>sorted\<close> is stable, as is \<^const>\<open>sort_key\<close>; identifiers are compared as
  strings.
\<close>

fun merge_loop :: "'s dweds \<Rightarrow> 's dweds list \<Rightarrow> 's dweds" where
  "merge_loop res [] = res"
| "merge_loop res (src # rest) =
     merge_loop
       (DWEDS (ds_identifier res)
          (add_import (data_context res) (data_context src))
          (add_import (evidence_context res) (evidence_context src))
          (source_idents res))
       rest"

definition merge_translate :: "naming \<Rightarrow> 's dweds list \<Rightarrow> error + 's dweds" where
  "merge_translate nm sources =
     (if sources = [] then Inl (Exception ''No sources were provided'')
      else (let sorted_sources = sort_key ds_identifier sources;
                res = make_new_output nm (map ds_identifier sorted_sources)
            in Inr (merge_loop res sorted_sources)))"

section \<open>WormBase translators (\<^verbatim>\<open>owmeta/data_trans/wormbase.py\<close>)\<close>

text \<open>
  The objects the translators state in their contexts. A channel carries its name, gene
  name, gene WormBase ID, description and expression patterns; \<^verbatim>\<open>Worm_muscle\<close> and
  \<^verbatim>\<open>Network_neuron\<close> are the statements \<^verbatim>\<open>w.muscle(m)\<close> and
  \<^verbatim>\<open>n.neuron(...)\<close>; \<^verbatim>\<open>Cell_wormbaseID\<close> is the statement
  \<^verbatim>\<open>doc_ctx(loaded_cell).wormbaseID(...)\<close> about the cell with the given identifier.
\<close>

datatype gobject =
    Website string string string
  | Evidence gobject ident
  | ExpressionPattern string string
  | Channel string string string string "gobject list"
  | Worm
  | Muscle string
  | Worm_muscle string
  | Network
  | Network_worm
  | Neuron string
  | Network_neuron string
  | Cell_wormbaseID ident string

text \<open>
  A CSV data source is its identifier and the rows that the reader of
  \<^verbatim>\<open>make_reader\<close> yields for it (a list of fields, or with
  \<^verbatim>\<open>dict_reader=True\<close> a dictionary from column name to field).
  \<^verbatim>\<open>normalize_cell_name\<close> (\<^verbatim>\<open>owmeta/utils.py\<close>) is a parameter of every
  translator that calls it.
\<close>

record csv_source =
  csv_ident :: ident
  csv_rows :: "string list list"

record csv_dict_source =
  csvd_ident :: ident
  csvd_rows :: "(string \<times> string) list list"

text \<open>
  The evidence step that every translator performs:
  \<^verbatim>\<open>
  with res.evidence_context(Evidence=Evidence, Website=Website) as ctx:
      doc = ctx.Website(key="wormbase", url="http://Wormbase.org", title="WormBase")
      doc_ctx = res.data_context_for(document=doc)
      ctx.Evidence(reference=doc, supports=doc_ctx.rdf_object)
  \<close>
\<close>

definition wormbase_website :: gobject where
  "wormbase_website = Website ''wormbase'' ''http://Wormbase.org'' ''WormBase''"

definition data_context_for :: "naming \<Rightarrow> gobject dweds \<Rightarrow> string \<Rightarrow> gobject ctx" where
  "data_context_for nm res doc_key =
     Ctx (document_context_ident nm (ds_identifier res) doc_key)
       (statements (data_context res)) (imported (data_context res))"

definition with_evidence :: "naming \<Rightarrow> gobject dweds \<Rightarrow> gobject dweds" where
  "with_evidence nm res =
     (let doc = wormbase_website;
          doc_ctx = data_context_for nm res ''wormbase''
      in DWEDS (ds_identifier res) doc_ctx
           (add_statements (evidence_context res) [doc, Evidence doc (ctx_ident doc_ctx)])
           (source_idents res))"

definition with_data :: "gobject dweds \<Rightarrow> gobject list \<Rightarrow> gobject dweds" where
  "with_data res ss =
     DWEDS (ds_identifier res) (add_statements (data_context res) ss) (evidence_context res)
       (source_idents res)"

subsection \<open>\<^verbatim>\<open>WormbaseIonChannelCSVTranslator\<close>\<close>








subsection \<open>\<^verbatim>\<open>WormbaseTextMatchCSVTranslator.extract_cell_names\<close>\<close>

text \<open>
  \<^verbatim>\<open>
  def extract_cell_names(self, header, initial_cell_column, row):
      res = []
      cols = 0
      for col in row:
          if cols > initial_cell_column:
              if col == '1' or col == '2':
                  res.append(header[cols])
          cols += 1
      return res
  \<close>
\<close>

fun extract_loop ::
  "string list \<Rightarrow> int \<Rightarrow> string list \<Rightarrow> nat \<Rightarrow> string list \<Rightarrow> error + string list" where
  "extract_loop header initial_cell_column res cols [] = Inr res"
| "extract_loop header initial_cell_column res cols (col # row) =
     (if int cols > initial_cell_column \<and> (col = ''1'' \<or> col = ''2'')
      then (case py_index header cols of
              Inl e \<Rightarrow> Inl e
            | Inr h \<Rightarrow> extract_loop header initial_cell_column (res @ [h]) (cols + 1) row)
      else extract_loop header initial_cell_column res (cols + 1) row)"

definition extract_cell_names :: "string list \<Rightarrow> int \<Rightarrow> string list \<Rightarrow> error + string list" where
  "extract_cell_names header initial_cell_column row =
     extract_loop header initial_cell_column [] 0 row"

subsection \<open>\<^verbatim>\<open>MuscleWormBaseCSVTranslator\<close> and \<^verbatim>\<open>NeuronWormBaseCSVTranslator\<close>\<close>

text \<open>
  \<^verbatim>\<open>
  with doc_ctx(Worm=Worm, Muscle=Muscle) as ctx:
      w = ctx.Worm()

      for num, line in enumerate(csvreader):
          if line[7] or line[8] or line[9] == '1':  # muscle's marked in these columns
              muscle_name = normalize_cell_name(line[0]).upper()
              m = ctx.Muscle(name=muscle_name)
              w.muscle(m)
  \<close>
  The condition is \<^verbatim>\<open>line[7] or (line[8] or (line[9] == '1'))\<close>: a string is true
  when it is not empty, and \<^verbatim>\<open>or\<close> evaluates its right operand only when the left one
  is false.
\<close>

definition muscle_marked :: "string list \<Rightarrow> error + bool" where
  "muscle_marked line =
     (case py_index line 7 of Inl e \<Rightarrow> Inl e | Inr l7 \<Rightarrow>
        if l7 \<noteq> [] then Inr True
        else (case py_index line 8 of Inl e \<Rightarrow> Inl e | Inr l8 \<Rightarrow>
                if l8 \<noteq> [] then Inr True
                else (case py_index line 9 of Inl e \<Rightarrow> Inl e | Inr l9 \<Rightarrow>
                        Inr (l9 = ''1''))))"

fun muscle_loop ::
  "(string \<Rightarrow> string) \<Rightarrow> gobject list \<Rightarrow> string list list \<Rightarrow> error + gobject list" where
  "muscle_loop normalize_cell_name acc [] = Inr acc"
| "muscle_loop normalize_cell_name acc (line # rest) =
     (case muscle_marked line of
        Inl e \<Rightarrow> Inl e
      | Inr marked \<Rightarrow>
          if marked
          then (case py_index line 0 of
                  Inl e \<Rightarrow> Inl e
                | Inr l0 \<Rightarrow>
                    (let muscle_name = py_upper (normalize_cell_name l0)
                     in muscle_loop normalize_cell_name
                          (acc @ [Muscle muscle_name, Worm_muscle muscle_name]) rest))
          else muscle_loop normalize_cell_name acc rest)"

definition muscle_translate ::
  "naming \<Rightarrow> (string \<Rightarrow> string) \<Rightarrow> csv_source \<Rightarrow> error + gobject dweds" where
  "muscle_translate nm normalize_cell_name data_source =
     (let res = with_evidence nm (make_new_output nm [csv_ident data_source])
      in case muscle_loop normalize_cell_name [Worm] (csv_rows data_source) of
           Inl e \<Rightarrow> Inl e
         | Inr ss \<Rightarrow> Inr (with_data res ss))"

text \<open>
  \<^verbatim>\<open>
  with doc_ctx(Worm=Worm, Network=Network, Neuron=Neuron) as ctx:
      w = ctx.Worm()
      n = ctx.Network()
      n.worm(w)

      with self.make_reader(data_source, skipheader=False, skiplines=3) as csvreader:
          for num, line in enumerate(csvreader):
              if line[5] == '1':  # neurons marked in this column
                  neuron_name = normalize_cell_name(line[0]).upper()
                  n.neuron(ctx.Neuron(name=neuron_name))
  \<close>
\<close>

fun neuron_loop ::
  "(string \<Rightarrow> string) \<Rightarrow> gobject list \<Rightarrow> string list list \<Rightarrow> error + gobject list" where
  "neuron_loop normalize_cell_name acc [] = Inr acc"
| "neuron_loop normalize_cell_name acc (line # rest) =
     (case py_index line 5 of
        Inl e \<Rightarrow> Inl e
      | Inr l5 \<Rightarrow>
          if l5 = ''1''
          then (case py_index line 0 of
                  Inl e \<Rightarrow> Inl e
                | Inr l0 \<Rightarrow>
                    (let neuron_name = py_upper (normalize_cell_name l0)
                     in neuron_loop normalize_cell_name
                          (acc @ [Neuron neuron_name, Network_neuron neuron_name]) rest))
          else neuron_loop normalize_cell_name acc rest)"

definition neuron_translate ::
  "naming \<Rightarrow> (string \<Rightarrow> string) \<Rightarrow> csv_source \<Rightarrow> error + gobject dweds" where
  "neuron_translate nm normalize_cell_name data_source =
     (let res = with_evidence nm (make_new_output nm [csv_ident data_source])
      in case neuron_loop normalize_cell_name [Worm, Network, Network_worm]
                (csv_rows data_source) of
           Inl e \<Rightarrow> Inl e
         | Inr ss \<Rightarrow> Inr (with_data res ss))"

subsection \<open>\<^verbatim>\<open>WormbaseIDSetter\<close>\<close>

text \<open>
  \<^verbatim>\<open>
  def translate(self, data_source, cells_source):
      res = self.make_new_output((data_source,))
      with self.make_reader(data_source, skipinitialspace=True, skipheader=True,
              skiplines=1, dict_reader=True) as csvreader:
          with res.evidence_context(Evidence=Evidence, Website=Website) as ctx:
              ...
          for num, line in enumerate(csvreader):
              if num < 1:  # skip rows with no data
                  continue

              cell_name = normalize_cell_name(line['Cell'])
              cell = cells_source.data_context.stored(Cell).query(name=cell_name)
              for loaded_cell in cell.load():
                  doc_ctx(loaded_cell).wormbaseID(line['WormBase ID'])
      return res
  \<close>
  The store is a parameter: \<^verbatim>\<open>load_cells c name\<close> is the list of the identifiers of
  the cells that \<^verbatim>\<open>stored(Cell).query(name=name).load()\<close> yields in the context with
  identifier \<^verbatim>\<open>c\<close>.
\<close>

definition dict_get :: "(string \<times> string) list \<Rightarrow> string \<Rightarrow> error + string" where
  "dict_get line k = (case map_of line k of None \<Rightarrow> Inl (KeyError k) | Some v \<Rightarrow> Inr v)"

fun set_ids ::
  "gobject list \<Rightarrow> (string \<times> string) list \<Rightarrow> ident list \<Rightarrow> error + gobject list" where
  "set_ids acc line [] = Inr acc"
| "set_ids acc line (loaded_cell # cells) =
     (case dict_get line ''WormBase ID'' of
        Inl e \<Rightarrow> Inl e
      | Inr w \<Rightarrow> set_ids (acc @ [Cell_wormbaseID loaded_cell w]) line cells)"

fun idsetter_loop ::
  "(string \<Rightarrow> string) \<Rightarrow> (string \<Rightarrow> ident list) \<Rightarrow> gobject list \<Rightarrow> nat \<Rightarrow>
   (string \<times> string) list list \<Rightarrow> error + gobject list" where
  "idsetter_loop normalize_cell_name query acc num [] = Inr acc"
| "idsetter_loop normalize_cell_name query acc num (line # rest) =
     (if num < 1 then idsetter_loop normalize_cell_name query acc (num + 1) rest
      else (case dict_get line ''Cell'' of
              Inl e \<Rightarrow> Inl e
            | Inr c \<Rightarrow>
                (let cell_name = normalize_cell_name c;
                     cell = query cell_name
                 in case set_ids acc line cell of
                      Inl e \<Rightarrow> Inl e
                    | Inr acc' \<Rightarrow>
                        idsetter_loop normalize_cell_name query acc' (num + 1) rest)))"

definition idsetter_translate ::
  "naming \<Rightarrow> (string \<Rightarrow> string) \<Rightarrow> (ident \<Rightarrow> string \<Rightarrow> ident list) \<Rightarrow>
   csv_dict_source \<Rightarrow> gobject dweds \<Rightarrow> error + gobject dweds" where
  "idsetter_translate nm normalize_cell_name load_cells data_source cells_source =
     (let res = with_evidence nm (make_new_output nm [csvd_ident data_source])
      in case idsetter_loop normalize_cell_name
                (load_cells (ctx_ident (data_context cells_source))) [] 0
                (csvd_rows data_source) of
           Inl e \<Rightarrow> Inl e
         | Inr ss \<Rightarrow> Inr (with_data res ss))"


section \<open>Example inputs\<close>

text \<open>
  Concrete collaborators and inputs at which the theorems below are evaluated: a naming
  scheme, three translation results with one statement each, an identity
  \<^verbatim>\<open>normalize_cell_name\<close>, a rendering of values, and a \<^verbatim>\<open>urlparse\<close> for
  strings that are not URLs.
\<close>

definition example_naming :: naming where
  "example_naming =
     \<lparr>output_ident = (\<lambda>srcs. ''out('' @ concat (map (\<lambda>s. s @ '';'') srcs) @ '')''),
      data_context_ident = (\<lambda>i. i @ ''/data''),
      evidence_context_ident = (\<lambda>i. i @ ''/evidence''),
      document_context_ident = (\<lambda>i k. i @ ''/data?document='' @ k)\<rparr>"




definition example_n3 :: "string \<Rightarrow> string" where
  "example_n3 v = ''<'' @ v @ ''>''"

definition example_urlparse :: "string \<Rightarrow> parsed_url" where
  "example_urlparse u = \<lparr>netloc = [], path = u\<rparr>"

definition example_urlencode :: "string option \<Rightarrow> string" where
  "example_urlencode q = ''q='' @ (case q of None \<Rightarrow> ''None'' | Some v \<Rightarrow> v)"

definition example_entry :: bib_entry where
  "example_entry =
     \<lparr>entry_author = [''A. Author'', ''B. Author''], entry_title = Some ''A title'',
      entry_year = Some ''2014'', entry_doi = Some ''10.1000/a''\<rparr>"



section \<open>Properties of the document identity\<close>

lemma getattr_precedence [simp]:
  "getattr d ''doi'' = Inr (doi d)"
  "getattr d ''pmid'' = Inr (pmid d)"
  "getattr d ''wbid'' = Inr (wbid d)"
  "getattr d ''uri'' = Inr (uri d)"
  by (simp_all add: getattr_def)

lemma defined_augment_eq:
  "defined_augment d = Inr (doi d \<noteq> [] \<or> pmid d \<noteq> [] \<or> wbid d \<noteq> [] \<or> uri d \<noteq> [])"
  by (simp add: defined_augment_def id_precedence_def has_defined_value_def)

lemma identifier_augment_doi:
  "doi d = v # vs \<Longrightarrow>
   identifier_augment n3 mk d = Inr (mk (''doi:'' @ n3 v))"
  by (simp add: identifier_augment_def id_precedence_def has_defined_value_def)

lemma identifier_augment_none:
  "doi d = [] \<Longrightarrow> pmid d = [] \<Longrightarrow> wbid d = [] \<Longrightarrow> uri d = [] \<Longrightarrow>
   identifier_augment n3 mk d = Inl IdentifierMissingException"
  by (simp add: identifier_augment_def id_precedence_def has_defined_value_def)

lemma identifier_augment_some:
  "doi d \<noteq> [] \<or> pmid d \<noteq> [] \<or> wbid d \<noteq> [] \<or> uri d \<noteq> [] \<Longrightarrow>
   \<exists>i. identifier_augment n3 mk d = Inr i"
  by (auto simp add: identifier_augment_def id_precedence_def has_defined_value_def
      split: list.splits)

text \<open>
  Claim C1. On a document whose \<^verbatim>\<open>doi\<close> has a defined value (whatever
  \<^verbatim>\<open>pmid\<close>, \<^verbatim>\<open>wbid\<close> and \<^verbatim>\<open>uri\<close> hold, so in particular when all of
  \<^verbatim>\<open>doi\<close>, \<^verbatim>\<open>pmid\<close> and \<^verbatim>\<open>wbid\<close> are set and when only \<^verbatim>\<open>doi\<close> is),
  \<^verbatim>\<open>identifier_augment\<close> returns the identifier made from the kind name
  \<^verbatim>\<open>doi\<close> and the first defined DOI value, and every document with the same DOI values
  gets the same identifier, whatever its other fields are.
\<close>

theorem C1_identifier_from_doi:
  assumes "doi d \<noteq> []"
  shows "identifier_augment n3 mk d = Inr (mk (''doi:'' @ n3 (hd (doi d)))) \<and>
         (\<forall>d'. doi d' = doi d \<longrightarrow>
            identifier_augment n3 mk d' = identifier_augment n3 mk d)"
proof -
  from assms obtain v vs where v: "doi d = v # vs" by (cases "doi d") auto
  have "identifier_augment n3 mk d' = Inr (mk (''doi:'' @ n3 v))" if "doi d' = doi d" for d'
    using that v by (simp add: identifier_augment_doi)
  then show ?thesis using v by simp
qed

theorem C1_identifier_from_doi_witness:
  "doi \<lparr>author = [], doi = [''10.1000/a''], uri = [], wbid = [''WBPaper00044287''],
        pmid = [''24098140''], year = [], title = []\<rparr> \<noteq> [] \<and>
   identifier_augment example_n3 (\<lambda>s. s)
     \<lparr>author = [], doi = [''10.1000/a''], uri = [], wbid = [''WBPaper00044287''],
      pmid = [''24098140''], year = [], title = []\<rparr> = Inr ''doi:<10.1000/a>'' \<and>
   identifier_augment example_n3 (\<lambda>s. s) (empty_document\<lparr>doi := [''10.1000/a'']\<rparr>) =
     Inr ''doi:<10.1000/a>''"
  using C1_identifier_from_doi [of
      "\<lparr>author = [], doi = [''10.1000/a''], uri = [], wbid = [''WBPaper00044287''],
        pmid = [''24098140''], year = [], title = []\<rparr>" example_n3 "\<lambda>s. s"]
  by (simp add: example_n3_def empty_document_def)

text \<open>
  Claim C2. \<^verbatim>\<open>defined_augment\<close> returns true if and only if at least one of
  \<^verbatim>\<open>doi\<close>, \<^verbatim>\<open>pmid\<close>, \<^verbatim>\<open>wbid\<close>, \<^verbatim>\<open>uri\<close> has a defined value;
  \<^verbatim>\<open>identifier_augment\<close> returns an identifier exactly when \<^verbatim>\<open>defined_augment\<close>
  is true, and raises \<^verbatim>\<open>IdentifierMissingException\<close> exactly when it is false.
\<close>

theorem C2_defined_iff_identifier:
  "defined_augment d = Inr (doi d \<noteq> [] \<or> pmid d \<noteq> [] \<or> wbid d \<noteq> [] \<or> uri d \<noteq> []) \<and>
   ((\<exists>i. identifier_augment n3 mk d = Inr i) = (defined_augment d = Inr True)) \<and>
   ((identifier_augment n3 mk d = Inl IdentifierMissingException) = (defined_augment d = Inr False))"
proof (cases "doi d \<noteq> [] \<or> pmid d \<noteq> [] \<or> wbid d \<noteq> [] \<or> uri d \<noteq> []")
  case True
  from identifier_augment_some [OF True, of n3 mk] obtain i where
    "identifier_augment n3 mk d = Inr i" by blast
  with True show ?thesis by (simp add: defined_augment_eq)
next
  case False
  then have "identifier_augment n3 mk d = Inl IdentifierMissingException"
    by (simp add: identifier_augment_none)
  with False show ?thesis by (simp add: defined_augment_eq)
qed

theorem C2_defined_iff_identifier_witness:
  "defined_augment empty_document = Inr False \<and>
   identifier_augment example_n3 (\<lambda>s. s) empty_document = Inl IdentifierMissingException \<and>
   defined_augment (empty_document\<lparr>uri := [''http://example.org/doc'']\<rparr>) = Inr True \<and>
   identifier_augment example_n3 (\<lambda>s. s) (empty_document\<lparr>uri := [''http://example.org/doc'']\<rparr>) =
     Inr ''uri:<http://example.org/doc>''"
proof -
  have a: "identifier_augment example_n3 (\<lambda>s. s) (empty_document\<lparr>uri := [''http://example.org/doc'']\<rparr>) =
     Inr ''uri:<http://example.org/doc>''"
    by (simp add: identifier_augment_def id_precedence_def has_defined_value_def
        empty_document_def example_n3_def)
  show ?thesis
    using C2_defined_iff_identifier [of empty_document example_n3 "\<lambda>s. s"]
      C2_defined_iff_identifier [of "empty_document\<lparr>uri := [''http://example.org/doc'']\<rparr>"
        example_n3 "\<lambda>s. s"] a
    by (simp add: empty_document_def)
qed

section \<open>Properties of the context merger\<close>









text \<open>
  Claim C4. Called with no source, \<^verbatim>\<open>translate\<close> raises
  \<^verbatim>\<open>Exception("No sources were provided")\<close>, the error the taxonomy calls
  \<^verbatim>\<open>InputError\<close>, before any output is made: the outcome is the error and holds no
  translation result.
\<close>

theorem C4_merge_no_sources:
  "merge_translate nm [] = Inl (Exception ''No sources were provided'')"
  by (simp add: merge_translate_def)

section \<open>Properties of the enrichment operations\<close>

lemma doi_uri_to_doi_error: "doi_uri_to_doi urlparse u = Inl e \<Longrightarrow> e = IndexError"
  by (auto simp add: doi_uri_to_doi_def Let_def py_index_def split: if_splits sum.splits)

lemma coins_authors_error: "coins_authors xs = Inl e \<Longrightarrow> e = IndexError"
  by (induction xs) (auto simp add: py_index_def split: if_splits sum.splits)

lemma cr_apply_error: "cr_apply r0 d = Inl e \<Longrightarrow> e = KeyError ''coins'' \<or> e = IndexError"
  by (auto simp add: cr_apply_def split: option.splits sum.splits dest: coins_authors_error)

lemma crossref_doi_extract_error:
  "snd (crossref_doi_extract urlparse urlencode json_request d) = Inl e \<Longrightarrow>
   e = TypeError \<or> e = IndexError \<or> e = KeyError ''coins''"
  by (auto simp add: crossref_doi_extract_def Let_def
      split: option.splits sum.splits if_splits
      dest: doi_uri_to_doi_error cr_apply_error)

lemma update_from_wormbase_none:
  "wbid d = [] \<Longrightarrow>
   update_from_wormbase conf_root json_request replace_existing d =
     ([], Inl (WormbaseRetrievalException
        ''There is no Wormbase ID attached to this Document. So no data can be retrieved''))"
  by (simp add: update_from_wormbase_def)

lemma update_from_wormbase_many:
  "1 < length (wbid d) \<Longrightarrow>
   update_from_wormbase conf_root json_request replace_existing d =
     ([], Inl (WormbaseRetrievalException
        ''There is more than one Wormbase ID attached to this Document. Please try with just one Wormbase ID''))"
  by (auto simp add: update_from_wormbase_def Let_def)

lemma update_from_wormbase_one:
  "length (wbid d) = 1 \<Longrightarrow>
   length (fst (update_from_wormbase conf_root json_request replace_existing d)) = 1 \<and>
   \<not> isl (snd (update_from_wormbase conf_root json_request replace_existing d))"
  by (simp add: update_from_wormbase_def Let_def split: option.splits)

lemma update_from_pubmed_none:
  "pmid d = [] \<Longrightarrow>
   update_from_pubmed api_key pm_request d =
     ([], Inl (PubmedRetrievalException
        ''No Pubmed ID is attached to this document. Cannot retrieve Pubmed data''))"
  by (simp add: update_from_pubmed_def)

lemma update_from_pubmed_many:
  "1 < length (pmid d) \<Longrightarrow>
   update_from_pubmed api_key pm_request d =
     ([], Inl (PubmedRetrievalException
        ''More than one Pubmed ID is attached to this document. Please try with just one Pubmed ID''))"
  by (auto simp add: update_from_pubmed_def Let_def)

lemma update_from_pubmed_one:
  "length (pmid d) = 1 \<Longrightarrow>
   length (fst (update_from_pubmed api_key pm_request d)) = 1 \<and>
   \<not> isl (snd (update_from_pubmed api_key pm_request d))"
  by (simp add: update_from_pubmed_def Let_def split: option.splits)

text \<open>
  Claim C5, as amended. For \<^verbatim>\<open>update_from_wormbase\<close> and
  \<^verbatim>\<open>update_from_pubmed\<close>: when no identifying value of the relevant kind
  (\<^verbatim>\<open>wbid\<close>, \<^verbatim>\<open>pmid\<close>) is defined the call fails with the retrieval error that names
  the missing kind, and when more than one is defined it fails with the retrieval error
  that names the ambiguity, in both cases without any network request (the list of
  requested URLs is empty) and as the outcome of the call; with exactly one value the call
  makes one request and does not fail. The CrossRef enrichment checks no such
  precondition: it never fails with a retrieval error.
\<close>

theorem C5_retrieval_preconditions:
  "(wbid d = [] \<longrightarrow>
      update_from_wormbase conf_root wb_request replace_existing d =
        ([], Inl (WormbaseRetrievalException
           ''There is no Wormbase ID attached to this Document. So no data can be retrieved''))) \<and>
   (1 < length (wbid d) \<longrightarrow>
      update_from_wormbase conf_root wb_request replace_existing d =
        ([], Inl (WormbaseRetrievalException
           ''There is more than one Wormbase ID attached to this Document. Please try with just one Wormbase ID''))) \<and>
   (length (wbid d) = 1 \<longrightarrow>
      length (fst (update_from_wormbase conf_root wb_request replace_existing d)) = 1 \<and>
      \<not> isl (snd (update_from_wormbase conf_root wb_request replace_existing d))) \<and>
   (pmid d = [] \<longrightarrow>
      update_from_pubmed api_key pm_request d =
        ([], Inl (PubmedRetrievalException
           ''No Pubmed ID is attached to this document. Cannot retrieve Pubmed data''))) \<and>
   (1 < length (pmid d) \<longrightarrow>
      update_from_pubmed api_key pm_request d =
        ([], Inl (PubmedRetrievalException
           ''More than one Pubmed ID is attached to this document. Please try with just one Pubmed ID''))) \<and>
   (length (pmid d) = 1 \<longrightarrow>
      length (fst (update_from_pubmed api_key pm_request d)) = 1 \<and>
      \<not> isl (snd (update_from_pubmed api_key pm_request d))) \<and>
   (\<forall>m. snd (crossref_doi_extract urlparse urlencode cr_request d) \<noteq>
            Inl (WormbaseRetrievalException m) \<and>
        snd (crossref_doi_extract urlparse urlencode cr_request d) \<noteq>
            Inl (PubmedRetrievalException m))"
proof -
  have "snd (crossref_doi_extract urlparse urlencode cr_request d) \<noteq>
            Inl (WormbaseRetrievalException m)" for m
    using crossref_doi_extract_error [of urlparse urlencode cr_request d] by auto
  moreover have "snd (crossref_doi_extract urlparse urlencode cr_request d) \<noteq>
            Inl (PubmedRetrievalException m)" for m
    using crossref_doi_extract_error [of urlparse urlencode cr_request d] by auto
  ultimately show ?thesis
    using update_from_wormbase_none [of d conf_root wb_request replace_existing]
      update_from_wormbase_many [of d conf_root wb_request replace_existing]
      update_from_wormbase_one [of d conf_root wb_request replace_existing]
      update_from_pubmed_none [of d api_key pm_request]
      update_from_pubmed_many [of d api_key pm_request]
      update_from_pubmed_one [of d api_key pm_request]
    by blast
qed

theorem C5_retrieval_preconditions_witness:
  "wbid empty_document = [] \<and> pmid empty_document = [] \<and>
   update_from_wormbase None (\<lambda>u. None) False empty_document =
     ([], Inl (WormbaseRetrievalException
        ''There is no Wormbase ID attached to this Document. So no data can be retrieved'')) \<and>
   update_from_pubmed None (\<lambda>u. None) empty_document =
     ([], Inl (PubmedRetrievalException
        ''No Pubmed ID is attached to this document. Cannot retrieve Pubmed data'')) \<and>
   1 < length (wbid (empty_document\<lparr>wbid := [''WBPaper1'', ''WBPaper2''], pmid := [''1'', ''2'']\<rparr>)) \<and>
   1 < length (pmid (empty_document\<lparr>wbid := [''WBPaper1'', ''WBPaper2''], pmid := [''1'', ''2'']\<rparr>)) \<and>
   update_from_wormbase None (\<lambda>u. None) False
       (empty_document\<lparr>wbid := [''WBPaper1'', ''WBPaper2''], pmid := [''1'', ''2'']\<rparr>) =
     ([], Inl (WormbaseRetrievalException
        ''There is more than one Wormbase ID attached to this Document. Please try with just one Wormbase ID'')) \<and>
   update_from_pubmed None (\<lambda>u. None)
       (empty_document\<lparr>wbid := [''WBPaper1'', ''WBPaper2''], pmid := [''1'', ''2'']\<rparr>) =
     ([], Inl (PubmedRetrievalException
        ''More than one Pubmed ID is attached to this document. Please try with just one Pubmed ID'')) \<and>
   length (wbid (empty_document\<lparr>wbid := [''WBPaper1''], pmid := [''1'']\<rparr>)) = 1 \<and>
   length (pmid (empty_document\<lparr>wbid := [''WBPaper1''], pmid := [''1'']\<rparr>)) = 1 \<and>
   fst (update_from_wormbase None (\<lambda>u. None) False
       (empty_document\<lparr>wbid := [''WBPaper1''], pmid := [''1'']\<rparr>)) =
     [''http://rest.wormbase.org/rest/widget/paper/WBPaper1/overview?content-type=application%2Fjson''] \<and>
   \<not> isl (snd (update_from_pubmed None (\<lambda>u. None)
       (empty_document\<lparr>wbid := [''WBPaper1''], pmid := [''1'']\<rparr>)))"
proof -
  have a: "fst (update_from_wormbase None (\<lambda>u. None) False
       (empty_document\<lparr>wbid := [''WBPaper1''], pmid := [''1'']\<rparr>)) =
     [''http://rest.wormbase.org/rest/widget/paper/WBPaper1/overview?content-type=application%2Fjson'']"
    by (simp add: update_from_wormbase_def empty_document_def)
  show ?thesis
    using C5_retrieval_preconditions [of empty_document None "\<lambda>u. None" False None "\<lambda>u. None"
        example_urlparse example_urlencode "\<lambda>u. []"]
      C5_retrieval_preconditions [of
        "empty_document\<lparr>wbid := [''WBPaper1'', ''WBPaper2''], pmid := [''1'', ''2'']\<rparr>"
        None "\<lambda>u. None" False None "\<lambda>u. None" example_urlparse example_urlencode "\<lambda>u. []"]
      C5_retrieval_preconditions [of
        "empty_document\<lparr>wbid := [''WBPaper1''], pmid := [''1'']\<rparr>"
        None "\<lambda>u. None" False None "\<lambda>u. None" example_urlparse example_urlencode "\<lambda>u. []"]
      a
    by (simp add: empty_document_def)
qed

text \<open>
  The claim as stated fails for the CrossRef enrichment: on a document with two DOI
  values it raises nothing, and it requests the lookup of the first value.
\<close>

theorem C5_crossref_counterexample:
  "length (doi (empty_document\<lparr>doi := [''10.1000/a'', ''10.1000/b'']\<rparr>)) = 2 \<and>
   crossref_doi_extract example_urlparse example_urlencode (\<lambda>u. [])
       (empty_document\<lparr>doi := [''10.1000/a'', ''10.1000/b'']\<rparr>) =
     ([''http://search.labs.crossref.org/dois?q=10.1000/a''],
      Inr (empty_document\<lparr>doi := [''10.1000/a'', ''10.1000/b'']\<rparr>))"
  by (simp add: crossref_doi_extract_def empty_document_def prop_get_def
      example_urlencode_def)

section \<open>Properties of the construction\<close>







lemma init_pubmed_guard:
  "init_pubmed urlparse pubmed d = Inr d' \<Longrightarrow>
   doi d' = doi d \<and> wbid d' = wbid d \<and>
   (pmid d \<noteq> [] \<longrightarrow> pmid d' = pmid d) \<and>
   (pubmed = None \<longrightarrow> pmid d' = pmid d) \<and>
   (\<forall>p. pmid d = [] \<longrightarrow> pubmed = Some p \<longrightarrow> take 4 p \<noteq> ''http'' \<longrightarrow> pmid d' = [p])"
  by (auto simp add: init_pubmed_def has_defined_value_def prop_set_def
      split: option.splits if_splits sum.splits)

lemma init_wormbase_guard:
  "init_wormbase urlparse wormbase d = Inr d' \<Longrightarrow>
   doi d' = doi d \<and> pmid d' = pmid d \<and>
   (wbid d \<noteq> [] \<longrightarrow> wbid d' = wbid d) \<and>
   (wormbase = None \<longrightarrow> wbid d' = wbid d) \<and>
   (\<forall>w. wbid d = [] \<longrightarrow> wormbase = Some w \<longrightarrow> take 4 w \<noteq> ''http'' \<longrightarrow> wbid d' = [w])"
  by (auto simp add: init_wormbase_def has_defined_value_def prop_set_def
      split: option.splits if_splits sum.splits)

lemma init_doi_always:
  "init_doi urlparse doi_param d = Inr d' \<Longrightarrow>
   pmid d' = pmid d \<and> wbid d' = wbid d \<and>
   (doi_param = None \<longrightarrow> doi d' = doi d) \<and>
   (\<forall>x. doi_param = Some x \<longrightarrow> length (doi d') = 1) \<and>
   (\<forall>x. doi_param = Some x \<longrightarrow> take 4 x \<noteq> ''http'' \<longrightarrow> doi d' = [x]) \<and>
   (\<forall>x. doi_param = Some x \<longrightarrow> take 4 x = ''http'' \<longrightarrow>
        doi_uri_to_doi urlparse x = Inr None \<longrightarrow> doi d' = [x]) \<and>
   (\<forall>x t. doi_param = Some x \<longrightarrow> take 4 x = ''http'' \<longrightarrow>
        doi_uri_to_doi urlparse x = Inr (Some t) \<longrightarrow> doi d' = [t])"
  by (auto simp add: init_doi_def prop_set_def
      split: option.splits if_splits sum.splits)

text \<open>
  Claim C7, as amended. Construction applies the rules in the order blob, pubmed,
  wormbase, doi: an error of the blob rule is the outcome whatever the other parameters
  are, and after a successful blob rule an error of the pubmed rule is the outcome. The
  pubmed and wormbase rules are applied only when \<^verbatim>\<open>pmid\<close>, respectively
  \<^verbatim>\<open>wbid\<close>, has no defined value; otherwise the property keeps its value. The doi
  rule has no such guard: whenever a \<^verbatim>\<open>doi\<close> parameter is given, the
  \<^verbatim>\<open>doi\<close> property ends with exactly one value, the normalized parameter (the
  parameter itself, or the DOI that \<^verbatim>\<open>_doi_uri_to_doi\<close> extracts from a URL), also
  when the property was populated before.
\<close>

theorem C7_construction_rules:
  "(init_bibtex loads bibtex d0 = Inl e \<longrightarrow>
      Document_init loads urlparse d0 bibtex doi_param pubmed wormbase = Inl e) \<and>
   (init_bibtex loads bibtex d0 = Inr d1 \<longrightarrow>
      (init_pubmed urlparse pubmed d1 = Inl e \<longrightarrow>
         Document_init loads urlparse d0 bibtex doi_param pubmed wormbase = Inl e) \<and>
      (Document_init loads urlparse d0 bibtex doi_param pubmed wormbase = Inr d' \<longrightarrow>
         (pmid d1 \<noteq> [] \<longrightarrow> pmid d' = pmid d1) \<and>
         (wbid d1 \<noteq> [] \<longrightarrow> wbid d' = wbid d1) \<and>
         (pmid d1 = [] \<longrightarrow> pubmed = Some p \<longrightarrow> take 4 p \<noteq> ''http'' \<longrightarrow> pmid d' = [p]) \<and>
         (wbid d1 = [] \<longrightarrow> wormbase = Some w \<longrightarrow> take 4 w \<noteq> ''http'' \<longrightarrow> wbid d' = [w]) \<and>
         (doi_param = None \<longrightarrow> doi d' = doi d1) \<and>
         (doi_param = Some x \<longrightarrow> length (doi d') = 1) \<and>
         (doi_param = Some x \<longrightarrow> take 4 x \<noteq> ''http'' \<longrightarrow> doi d' = [x]) \<and>
         (doi_param = Some x \<longrightarrow> take 4 x = ''http'' \<longrightarrow>
            doi_uri_to_doi urlparse x = Inr None \<longrightarrow> doi d' = [x]) \<and>
         (doi_param = Some x \<longrightarrow> take 4 x = ''http'' \<longrightarrow>
            doi_uri_to_doi urlparse x = Inr (Some t) \<longrightarrow> doi d' = [t])))"
proof -
  have a: "init_bibtex loads bibtex d0 = Inl e \<Longrightarrow>
      Document_init loads urlparse d0 bibtex doi_param pubmed wormbase = Inl e"
    by (simp add: Document_init_def)
  have b: "init_bibtex loads bibtex d0 = Inr d1 \<Longrightarrow> init_pubmed urlparse pubmed d1 = Inl e \<Longrightarrow>
         Document_init loads urlparse d0 bibtex doi_param pubmed wormbase = Inl e"
    by (simp add: Document_init_def)
  have c: "(pmid d1 \<noteq> [] \<longrightarrow> pmid d' = pmid d1) \<and>
         (wbid d1 \<noteq> [] \<longrightarrow> wbid d' = wbid d1) \<and>
         (pmid d1 = [] \<longrightarrow> pubmed = Some p \<longrightarrow> take 4 p \<noteq> ''http'' \<longrightarrow> pmid d' = [p]) \<and>
         (wbid d1 = [] \<longrightarrow> wormbase = Some w \<longrightarrow> take 4 w \<noteq> ''http'' \<longrightarrow> wbid d' = [w]) \<and>
         (doi_param = None \<longrightarrow> doi d' = doi d1) \<and>
         (doi_param = Some x \<longrightarrow> length (doi d') = 1) \<and>
         (doi_param = Some x \<longrightarrow> take 4 x \<noteq> ''http'' \<longrightarrow> doi d' = [x]) \<and>
         (doi_param = Some x \<longrightarrow> take 4 x = ''http'' \<longrightarrow>
            doi_uri_to_doi urlparse x = Inr None \<longrightarrow> doi d' = [x]) \<and>
         (doi_param = Some x \<longrightarrow> take 4 x = ''http'' \<longrightarrow>
            doi_uri_to_doi urlparse x = Inr (Some t) \<longrightarrow> doi d' = [t])"
    if b1: "init_bibtex loads bibtex d0 = Inr d1"
      and r: "Document_init loads urlparse d0 bibtex doi_param pubmed wormbase = Inr d'"
  proof -
    from b1 r obtain d2 d3 where
      s2: "init_pubmed urlparse pubmed d1 = Inr d2"
      and s3: "init_wormbase urlparse wormbase d2 = Inr d3"
      and s4: "init_doi urlparse doi_param d3 = Inr d'"
      by (auto simp add: Document_init_def split: sum.splits)
    from init_pubmed_guard [OF s2] init_wormbase_guard [OF s3] init_doi_always [OF s4]
    show ?thesis by simp
  qed
  from a b c show ?thesis by blast
qed

theorem C7_construction_rules_witness:
  "init_bibtex (\<lambda>b. [example_entry]) (Some ''blob'') (empty_document\<lparr>pmid := [''1'']\<rparr>) =
     Inr \<lparr>author = [''A. Author'', ''B. Author''], doi = [''10.1000/a''], uri = [], wbid = [],
          pmid = [''1''], year = [''2014''], title = [''A title'']\<rparr> \<and>
   Document_init (\<lambda>b. [example_entry]) example_urlparse (empty_document\<lparr>pmid := [''1'']\<rparr>)
       (Some ''blob'') (Some ''10.1000/b'') (Some ''24098140'') (Some ''WBPaper00044287'') =
     Inr \<lparr>author = [''A. Author'', ''B. Author''], doi = [''10.1000/b''], uri = [],
          wbid = [''WBPaper00044287''], pmid = [''1''], year = [''2014''],
          title = [''A title'']\<rparr> \<and>
   take 4 ''10.1000/b'' \<noteq> ''http'' \<and> take 4 ''WBPaper00044287'' \<noteq> ''http''"
proof -
  have a: "init_bibtex (\<lambda>b. [example_entry]) (Some ''blob'') (empty_document\<lparr>pmid := [''1'']\<rparr>) =
     Inr \<lparr>author = [''A. Author'', ''B. Author''], doi = [''10.1000/a''], uri = [], wbid = [],
          pmid = [''1''], year = [''2014''], title = [''A title'']\<rparr>"
    by (simp add: init_bibtex_def update_with_bibtex_def py_index_def
        update_document_with_bibtex_def example_entry_def empty_document_def set_opt_def
        prop_set_def)
  have b: "Document_init (\<lambda>b. [example_entry]) example_urlparse (empty_document\<lparr>pmid := [''1'']\<rparr>)
       (Some ''blob'') (Some ''10.1000/b'') (Some ''24098140'') (Some ''WBPaper00044287'') =
     Inr \<lparr>author = [''A. Author'', ''B. Author''], doi = [''10.1000/b''], uri = [],
          wbid = [''WBPaper00044287''], pmid = [''1''], year = [''2014''],
          title = [''A title'']\<rparr>"
    by (simp add: Document_init_def a init_pubmed_def init_wormbase_def init_doi_def
        has_defined_value_def prop_set_def)
  from C7_construction_rules [of "\<lambda>b. [example_entry]" "Some ''blob''"
      "empty_document\<lparr>pmid := [''1'']\<rparr>" IndexError example_urlparse "Some ''10.1000/b''"
      "Some ''24098140''" "Some ''WBPaper00044287''"
      "\<lparr>author = [''A. Author'', ''B. Author''], doi = [''10.1000/a''], uri = [], wbid = [],
          pmid = [''1''], year = [''2014''], title = [''A title'']\<rparr>"
      "\<lparr>author = [''A. Author'', ''B. Author''], doi = [''10.1000/b''], uri = [],
          wbid = [''WBPaper00044287''], pmid = [''1''], year = [''2014''],
          title = [''A title'']\<rparr>"
      "''24098140''" "''WBPaper00044287''" "''10.1000/b''"] a b
  show ?thesis by simp
qed

text \<open>
  The claim as stated fails: the blob populates the \<^verbatim>\<open>doi\<close> property with
  \<^verbatim>\<open>10.1000/a\<close>, and the \<^verbatim>\<open>doi\<close> parameter \<^verbatim>\<open>10.1000/b\<close> then replaces
  that value.
\<close>

theorem C7_doi_parameter_counterexample:
  "map_sum id doi (init_bibtex (\<lambda>b. [example_entry]) (Some ''blob'') empty_document) =
     Inr [''10.1000/a''] \<and>
   map_sum id doi (Document_init (\<lambda>b. [example_entry]) example_urlparse empty_document
       (Some ''blob'') (Some ''10.1000/b'') None None) = Inr [''10.1000/b'']"
  by (simp add: Document_init_def init_bibtex_def update_with_bibtex_def py_index_def
      update_document_with_bibtex_def example_entry_def empty_document_def set_opt_def
      prop_set_def init_pubmed_def init_wormbase_def init_doi_def)



section \<open>Properties of the WormBase translators\<close>

lemma extract_loop_marked:
  "cols + length row \<le> length header \<Longrightarrow>
   extract_loop header icc res cols row =
     Inr (res @ map (\<lambda>p. header ! fst p)
            (filter (\<lambda>p. int (fst p) > icc \<and> (snd p = ''1'' \<or> snd p = ''2''))
               (enumerate cols row)))"
proof (induction row arbitrary: res cols)
  case Nil
  then show ?case by simp
next
  case (Cons col row)
  from Cons.prems have "Suc cols + length row \<le> length header" by simp
  from Cons.IH [OF this] Cons.prems show ?case
    by (simp add: py_index_def)
qed

lemma extract_cell_names_marked:
  "length row \<le> length header \<Longrightarrow>
   extract_cell_names header icc row =
     Inr (map (\<lambda>p. header ! fst p)
            (filter (\<lambda>p. int (fst p) > icc \<and> (snd p = ''1'' \<or> snd p = ''2''))
               (enumerate 0 row)))"
  by (simp add: extract_cell_names_def extract_loop_marked)

lemma muscle_marked_eq:
  "10 \<le> length line \<Longrightarrow>
   muscle_marked line = Inr (line ! 7 \<noteq> [] \<or> line ! 8 \<noteq> [] \<or> line ! 9 = ''1'')"
  by (simp add: muscle_marked_def py_index_def)

text \<open>
  Claim C6 at a failing input. The first row holds \<^verbatim>\<open>"0"\<close> in marker column 7 and
  nothing in columns 8 and 9, so by the claim it is not a muscle; the second row holds
  the member marker \<^verbatim>\<open>"2"\<close> in column 9. The muscle translator states a muscle for
  the first row and none for the second.
\<close>

theorem C6_muscle_marker_divergence:
  "map_sum id (\<lambda>r. statements (data_context r))
     (muscle_translate example_naming (\<lambda>x. x)
        \<lparr>csv_ident = ''cells'',
         csv_rows = [[''ADAL'', [], [], [], [], [], [], ''0'', [], []],
                     [''ADAR'', [], [], [], [], [], [], [], [], ''2'']]\<rparr>) =
   Inr [Worm, Muscle ''ADAL'', Worm_muscle ''ADAL'']"
  by code_simp




lemma statements_with_data:
  "statements (data_context (with_data (with_evidence nm (make_new_output nm srcs)) ss)) = ss"
  by (simp add: with_data_def with_evidence_def make_new_output_def add_statements_def
      data_context_for_def Let_def)



lemma set_ids_eq:
  "map_of line ''WormBase ID'' = Some w \<Longrightarrow>
   set_ids acc line cells = Inr (acc @ map (\<lambda>c. Cell_wormbaseID c w) cells)"
  by (induction cells arbitrary: acc) (simp_all add: dict_get_def)

lemma idsetter_loop_eq:
  assumes "\<forall>line \<in> set rows. map_of line ''Cell'' \<noteq> None \<and> map_of line ''WormBase ID'' \<noteq> None"
    and "1 \<le> num"
  shows "idsetter_loop normalize_cell_name query acc num rows =
     Inr (acc @ concat (map (\<lambda>line. map (\<lambda>c. Cell_wormbaseID c (the (map_of line ''WormBase ID'')))
                                   (query (normalize_cell_name (the (map_of line ''Cell'')))))
                         rows))"
  using assms
proof (induction rows arbitrary: acc num)
  case Nil
  then show ?case by simp
next
  case (Cons line rows)
  from Cons.prems obtain c w where
    c: "map_of line ''Cell'' = Some c" and w: "map_of line ''WormBase ID'' = Some w"
    by auto
  from Cons.prems have rest: "\<forall>line \<in> set rows. map_of line ''Cell'' \<noteq> None \<and> map_of line ''WormBase ID'' \<noteq> None"
    by simp
  have n: "1 \<le> num + 1" by simp
  from Cons.prems(2) have nz: "\<not> num < 1" by simp
  show ?case
    using Cons.IH [OF rest n] nz
    by (simp add: dict_get_def c w set_ids_eq [OF w] Let_def)
qed

text \<open>
  Claim C10. The rows after the first one that the reader yields are the data records
  (the translator skips the row with \<^verbatim>\<open>num < 1\<close>). When every data record has the
  columns \<^verbatim>\<open>Cell\<close> and \<^verbatim>\<open>WormBase ID\<close>, the translation succeeds, and the
  statements of its data context are, record by record, one WormBase ID update for each
  cell that the query of the prior translation's data context returns for the record's
  normalized cell name: none, one or many. In particular, when no record has a match the
  translation succeeds with an empty data context.
\<close>

theorem C10_idsetter_all_matches:
  assumes "\<forall>line \<in> set (drop 1 rows).
             map_of line ''Cell'' \<noteq> None \<and> map_of line ''WormBase ID'' \<noteq> None"
  shows "\<exists>res. idsetter_translate nm normalize_cell_name load_cells
            \<lparr>csvd_ident = i, csvd_rows = rows\<rparr> cells_source = Inr res \<and>
          statements (data_context res) =
            concat (map (\<lambda>line.
                      map (\<lambda>c. Cell_wormbaseID c (the (map_of line ''WormBase ID'')))
                        (load_cells (ctx_ident (data_context cells_source))
                           (normalize_cell_name (the (map_of line ''Cell'')))))
                    (drop 1 rows)) \<and>
          ((\<forall>line \<in> set (drop 1 rows).
              load_cells (ctx_ident (data_context cells_source))
                (normalize_cell_name (the (map_of line ''Cell''))) = []) \<longrightarrow>
           statements (data_context res) = [])"
proof -
  let ?q = "load_cells (ctx_ident (data_context cells_source))"
  have "idsetter_loop normalize_cell_name ?q [] 0 rows =
     Inr (concat (map (\<lambda>line. map (\<lambda>c. Cell_wormbaseID c (the (map_of line ''WormBase ID'')))
                                   (?q (normalize_cell_name (the (map_of line ''Cell'')))))
                         (drop 1 rows)))"
  proof (cases rows)
    case Nil
    then show ?thesis by simp
  next
    case (Cons line rest)
    with assms have "\<forall>line \<in> set rest. map_of line ''Cell'' \<noteq> None \<and> map_of line ''WormBase ID'' \<noteq> None"
      by simp
    from idsetter_loop_eq [OF this, of 1 normalize_cell_name ?q "[]"] Cons
    show ?thesis by simp
  qed
  then show ?thesis
    by (simp add: idsetter_translate_def Let_def statements_with_data)
qed

theorem C10_idsetter_all_matches_witness:
  "map_sum id (\<lambda>r. statements (data_context r))
     (idsetter_translate example_naming (\<lambda>x. x)
        (\<lambda>c name. if c = ''prior/data'' \<and> name = ''ADAL'' then [''cell1'', ''cell2''] else [])
        \<lparr>csvd_ident = ''ids'',
         csvd_rows = [[(''Cell'', ''Cell''), (''WormBase ID'', ''WormBase ID'')],
                      [(''Cell'', ''ADAL''), (''WormBase ID'', ''WBbt:0003834'')],
                      [(''Cell'', ''ADAR''), (''WormBase ID'', ''WBbt:0003835'')]]\<rparr>
        (DWEDS ''prior'' (Ctx ''prior/data'' [] []) (Ctx ''prior/evidence'' [] []) [])) =
   Inr [Cell_wormbaseID ''cell1'' ''WBbt:0003834'', Cell_wormbaseID ''cell2'' ''WBbt:0003834'']"
proof -
  have h: "\<forall>line \<in> set (drop 1 [[(''Cell'', ''Cell''), (''WormBase ID'', ''WormBase ID'')],
                      [(''Cell'', ''ADAL''), (''WormBase ID'', ''WBbt:0003834'')],
                      [(''Cell'', ''ADAR''), (''WormBase ID'', ''WBbt:0003835'')]]).
             map_of line ''Cell'' \<noteq> None \<and> map_of line ''WormBase ID'' \<noteq> None"
    by simp
  from C10_idsetter_all_matches [OF h, of example_naming "\<lambda>x. x"
      "\<lambda>c name. if c = ''prior/data'' \<and> name = ''ADAL'' then [''cell1'', ''cell2''] else []"
      "''ids''" "DWEDS ''prior'' (Ctx ''prior/data'' [] []) (Ctx ''prior/evidence'' [] []) []"]
  show ?thesis by auto
qed

end
